theory Spec2Isabelle
  imports Complex_Main "HOL-Library.List_Lexorder" "HOL-Library.Char_ord" "HOL-Library.DAList"
begin

section \<open>Values, exceptions and data frames\<close>

text \<open>
  The dashboard of \<^verbatim>\<open>typing_metric2.py\<close> never computes with the numbers it shows:
  it moves them from the provider into plot traces and table rows. A Python value is
  therefore a tagged payload; the float that is not a number is a value of its own.
  Dates reach the callback as ISO strings (\<^verbatim>\<open>'2024-01-31'\<close>), whose lexicographic
  order is the chronological one.
\<close>

datatype pyval = PInt int | PFloat real | PNaN | PStr string | PNone

type_synonym date = string

text \<open>
  The exceptions of the program: a missing column (\<^verbatim>\<open>stock_data['Volume']\<close>),
  a short argument tuple (\<^verbatim>\<open>metric_values[i]\<close>), a value that plotly's validation
  refuses, and whatever the provider raises, kept by its message.
\<close>

datatype exn = KeyError string | IndexError | ValueError | ProviderError string

text \<open>
  A pandas DataFrame, column by column as pandas stores it: the row labels and the named
  columns. The frames of this program (the provider's price history, the empty frame,
  the two-column metrics table) have pairwise different column names, and the type keeps
  that: the columns are an association list with distinct keys, so a name selects at
  most one column. A column's dtype is the one its cells have: numeric when all are
  numbers. \<^verbatim>\<open>pd.DataFrame()\<close> has neither rows nor columns.
\<close>

record dataframe =
  df_index :: "pyval list"
  df_columns :: "(string, pyval list) alist"

definition DataFrame_empty :: dataframe where
  "DataFrame_empty = \<lparr>df_index = [], df_columns = DAList.empty\<rparr>"

definition column_names :: "dataframe \<Rightarrow> string list" where
  "column_names df = map fst (DAList.impl_of (df_columns df))"

text \<open>\<^verbatim>\<open>df[name]\<close>: the column, or KeyError.\<close>

definition getitem :: "dataframe \<Rightarrow> string \<Rightarrow> exn + pyval list" where
  "getitem df name =
     (case DAList.lookup (df_columns df) name of
        None \<Rightarrow> Inl (KeyError name)
      | Some col \<Rightarrow> Inr col)"

text \<open>
  When pandas builds a frame from rows of Python objects it infers one dtype per column.
  A column that holds a string is not numeric: every string and every number in it comes
  back as it went in. A column without strings may become numeric, and then its cells are
  converted (an int beside a float becomes a float, None becomes NaN). That conversion,
  and what becomes of a None in any column, is pandas' own and in part floating-point
  arithmetic; it is a parameter: the cell that comes back, given the column and the cell
  that went in.
\<close>

fun is_str :: "pyval \<Rightarrow> bool" where
  "is_str (PStr s) = True"
| "is_str (PInt i) = False"
| "is_str (PFloat r) = False"
| "is_str PNaN = False"
| "is_str PNone = False"

definition infer_objects :: "(pyval list \<Rightarrow> pyval \<Rightarrow> pyval) \<Rightarrow> pyval list \<Rightarrow> pyval list" where
  "infer_objects convert col =
     map (\<lambda>v. if list_ex is_str col \<and> v \<noteq> PNone then v else convert col v) col"

text \<open>
  \<^verbatim>\<open>pd.DataFrame(metrics.items(), columns=['Metric', 'Value'])\<close>: one row per
  dictionary item, in insertion order, under a fresh range index, each column with its
  inferred dtype.
\<close>

definition DataFrame_items ::
  "(pyval list \<Rightarrow> pyval \<Rightarrow> pyval) \<Rightarrow> (string \<times> pyval) list \<Rightarrow> dataframe" where
  "DataFrame_items convert items =
     \<lparr>df_index = map (\<lambda>i. PInt (int i)) [0..<length items],
      df_columns =
        Alist [(''Metric'', infer_objects convert (map (\<lambda>kv. PStr (fst kv)) items)),
               (''Value'', infer_objects convert (map snd items))]\<rparr>"

text \<open>\<^verbatim>\<open>df.to_dict('records')\<close>: one dictionary per row, keyed by column name.\<close>

definition to_dict_records :: "dataframe \<Rightarrow> (string \<times> pyval) list list" where
  "to_dict_records df =
     map (\<lambda>i. map (\<lambda>c. (fst c, snd c ! i)) (DAList.impl_of (df_columns df)))
       [0..<length (df_index df)]"

text \<open>\<^verbatim>\<open>d.get(key, default)\<close>.\<close>

definition dict_get :: "(string \<rightharpoonup> pyval) \<Rightarrow> string \<Rightarrow> pyval \<Rightarrow> pyval" where
  "dict_get d k dflt = (case d k of None \<Rightarrow> dflt | Some v \<Rightarrow> v)"

section \<open>The outside world: calls, output and the provider\<close>

text \<open>
  What the program does besides returning values is kept as a trace: each entry into
  \<^verbatim>\<open>get_stock_data\<close>, each figure built by \<^verbatim>\<open>generate_metric_graph\<close>, each
  line printed. The market-data provider (\<^verbatim>\<open>yfinance\<close>) is a parameter: its three
  entry points may raise, and their answers may depend on everything that happened
  before, so two fetches of one recomputation need not agree. An exception of the
  provider is kept by its message (\<^verbatim>\<open>str(e)\<close>), which is all the handler reads. The
  record also carries the numeric conversion of pandas described above, the other piece
  of library behaviour the fetch depends on.
\<close>

datatype event =
    Fetch string date date
  | Render string string string
  | Print string

type_synonym world = "event list"

record provider =
  yf_Ticker :: "world \<Rightarrow> string \<Rightarrow> string option"
  yf_history :: "world \<Rightarrow> string \<Rightarrow> date \<Rightarrow> date \<Rightarrow> string + dataframe"
  yf_info :: "world \<Rightarrow> string \<Rightarrow> string + (string \<rightharpoonup> pyval)"
  pd_convert :: "pyval list \<Rightarrow> pyval \<Rightarrow> pyval"

fun is_fetch :: "event \<Rightarrow> bool" where
  "is_fetch (Fetch t s e) = True"
| "is_fetch (Render t m c) = False"
| "is_fetch (Print l) = False"

fun is_render :: "event \<Rightarrow> bool" where
  "is_render (Fetch t s e) = False"
| "is_render (Render t m c) = True"
| "is_render (Print l) = False"

definition fetches :: "world \<Rightarrow> event list" where
  "fetches w = filter is_fetch w"

definition renders :: "world \<Rightarrow> event list" where
  "renders w = filter is_render w"

section \<open>get\_stock\_data\<close>

text \<open>
  The metrics dictionary of lines 39 to 48: table key and the \<^verbatim>\<open>stock.info\<close> field
  it is read from, in insertion order.
\<close>

definition metric_fields :: "(string \<times> string) list" where
  "metric_fields =
     [(''Open'', ''open''),
      (''Close'', ''previousClose''),
      (''High'', ''dayHigh''),
      (''Low'', ''dayLow''),
      (''Volume'', ''volume''),
      (''Market Cap'', ''marketCap''),
      (''PE Ratio'', ''trailingPE''),
      (''Dividend Yield'', ''dividendYield'')]"

definition metrics_items :: "(string \<rightharpoonup> pyval) \<Rightarrow> (string \<times> pyval) list" where
  "metrics_items d = map (\<lambda>kf. (fst kf, dict_get d (snd kf) (PStr ''N/A''))) metric_fields"

definition error_line :: "string \<Rightarrow> string \<Rightarrow> string" where
  "error_line ticker msg = ''Error fetching data for '' @ ticker @ '': '' @ msg"

text \<open>
  Lines 32 to 52. \<^verbatim>\<open>yf.Ticker(ticker)\<close> is built before the \<^verbatim>\<open>try\<close>, so what it
  raises leaves the function; \<^verbatim>\<open>history\<close> and \<^verbatim>\<open>info\<close> are called inside it, and
  the handler prints one line and returns two empty frames.
\<close>

definition get_stock_data ::
  "provider \<Rightarrow> world \<Rightarrow> string \<Rightarrow> date \<Rightarrow> date \<Rightarrow> (exn + dataframe \<times> dataframe) \<times> world" where
  "get_stock_data P w ticker start_date end_date =
     (let w1 = w @ [Fetch ticker start_date end_date] in
      case yf_Ticker P w1 ticker of
        Some msg \<Rightarrow> (Inl (ProviderError msg), w1)
      | None \<Rightarrow>
          (case yf_history P w1 ticker start_date end_date of
             Inl msg \<Rightarrow>
               (Inr (DataFrame_empty, DataFrame_empty), w1 @ [Print (error_line ticker msg)])
           | Inr hist \<Rightarrow>
               (case yf_info P w1 ticker of
                  Inl msg \<Rightarrow>
                    (Inr (DataFrame_empty, DataFrame_empty), w1 @ [Print (error_line ticker msg)])
                | Inr d \<Rightarrow>
                    (Inr (hist, DataFrame_items (pd_convert P) (metrics_items d)), w1))))"

section \<open>Figures\<close>

text \<open>The entries of \<^verbatim>\<open>theme\<close> that the figures use.\<close>

definition theme_background :: string where "theme_background = ''#121212''"
definition theme_text :: string where "theme_text = ''#F5F5F5''"
definition theme_plot_bg :: string where "theme_plot_bg = ''#1a1a1a''"
definition theme_line :: string where "theme_line = ''#00CED1''"

text \<open>
  A plotly figure as the program fills it: the traces added, and the layout fields set
  by \<^verbatim>\<open>update_layout\<close> (unset fields are None). \<^verbatim>\<open>go.Figure()\<close> has no trace and
  nothing set.
\<close>

datatype trace =
    Scatter "pyval list" "pyval list" string "string option" "string option" "pyval list option"
  | Bar "pyval list" "pyval list" string
  | Candlestick "pyval list" "pyval list" "pyval list" "pyval list" "pyval list" string string

record layout =
  lo_title :: "string option"
  lo_plot_bgcolor :: "string option"
  lo_paper_bgcolor :: "string option"
  lo_font_color :: "string option"
  lo_xaxis_title :: "string option"
  lo_yaxis_title :: "string option"
  lo_height :: "int option"

record figure =
  fig_data :: "trace list"
  fig_layout :: layout

definition Figure :: figure where
  "Figure =
     \<lparr>fig_data = [],
      fig_layout = \<lparr>lo_title = None, lo_plot_bgcolor = None, lo_paper_bgcolor = None,
                    lo_font_color = None, lo_xaxis_title = None, lo_yaxis_title = None,
                    lo_height = None\<rparr>\<rparr>"

definition add_trace :: "figure \<Rightarrow> trace \<Rightarrow> figure" where
  "add_trace fig t = fig\<lparr>fig_data := fig_data fig @ [t]\<rparr>"

text \<open>The two \<^verbatim>\<open>update_layout\<close> calls, lines 98 to 106 and 108 to 114.\<close>

definition layout_metric :: "figure \<Rightarrow> string \<Rightarrow> string \<Rightarrow> figure" where
  "layout_metric fig ticker metric =
     fig\<lparr>fig_layout := (fig_layout fig)
       \<lparr>lo_title := Some (metric @ '' for '' @ ticker),
        lo_plot_bgcolor := Some theme_plot_bg,
        lo_paper_bgcolor := Some theme_background,
        lo_font_color := Some theme_text,
        lo_xaxis_title := Some ''Time'',
        lo_yaxis_title := Some metric,
        lo_height := Some 400\<rparr>\<rparr>"

definition layout_no_data :: "figure \<Rightarrow> string \<Rightarrow> string \<Rightarrow> figure" where
  "layout_no_data fig ticker metric =
     fig\<lparr>fig_layout := (fig_layout fig)
       \<lparr>lo_title := Some (''No data available for '' @ metric @ '' of '' @ ticker),
        lo_plot_bgcolor := Some theme_plot_bg,
        lo_paper_bgcolor := Some theme_background,
        lo_font_color := Some theme_text,
        lo_height := Some 400\<rparr>\<rparr>"

text \<open>The no-data placeholder: the figure of the \<^verbatim>\<open>else\<close> branch.\<close>

definition placeholder :: "string \<Rightarrow> string \<Rightarrow> figure" where
  "placeholder ticker metric = layout_no_data Figure ticker metric"

section \<open>generate\_metric\_graph\<close>

text \<open>
  plotly validates what a trace is built from. The data arrays (x, y, open, high, low,
  close) may hold anything; the marker size must be an array of numbers that are not
  negative, and NaN is not: otherwise the constructor raises ValueError.
\<close>

fun valid_size :: "pyval \<Rightarrow> bool" where
  "valid_size (PInt i) = (0 \<le> i)"
| "valid_size (PFloat r) = (0 \<le> r)"
| "valid_size PNaN = False"
| "valid_size (PStr s) = False"
| "valid_size PNone = False"

text \<open>
  Lines 80 to 97: the trace for the chart type, the columns read left to right as the
  keyword arguments are evaluated, then the constructor's validation. A chart type with
  no branch (\<^verbatim>\<open>'choropleth'\<close>) adds nothing.
\<close>

definition chart_trace :: "dataframe \<Rightarrow> string \<Rightarrow> string \<Rightarrow> exn + trace option" where
  "chart_trace stock_data metric chart_type =
     (if chart_type = ''lines'' then
        (case getitem stock_data metric of Inl ex \<Rightarrow> Inl ex
         | Inr y \<Rightarrow> Inr (Some (Scatter (df_index stock_data) y ''lines'' (Some theme_line) None None)))
      else if chart_type = ''bars'' then
        (case getitem stock_data metric of Inl ex \<Rightarrow> Inl ex
         | Inr y \<Rightarrow> Inr (Some (Bar (df_index stock_data) y theme_line)))
      else if chart_type = ''markers'' then
        (case getitem stock_data metric of Inl ex \<Rightarrow> Inl ex
         | Inr y \<Rightarrow> Inr (Some (Scatter (df_index stock_data) y ''markers'' None (Some theme_line) None)))
      else if chart_type = ''bubble'' then
        (case getitem stock_data metric of Inl ex \<Rightarrow> Inl ex
         | Inr y \<Rightarrow>
             (case getitem stock_data ''Volume'' of Inl ex \<Rightarrow> Inl ex
              | Inr v \<Rightarrow>
                  if list_all valid_size v
                  then Inr (Some (Scatter (df_index stock_data) y ''markers'' None (Some theme_line)
                              (Some v)))
                  else Inl ValueError))
      else if chart_type = ''candlestick'' then
        (case getitem stock_data ''Open'' of Inl ex \<Rightarrow> Inl ex
         | Inr op \<Rightarrow>
             (case getitem stock_data ''High'' of Inl ex \<Rightarrow> Inl ex
              | Inr hi \<Rightarrow>
                  (case getitem stock_data ''Low'' of Inl ex \<Rightarrow> Inl ex
                   | Inr lo \<Rightarrow>
                       (case getitem stock_data ''Close'' of Inl ex \<Rightarrow> Inl ex
                        | Inr cl \<Rightarrow>
                            Inr (Some (Candlestick (df_index stock_data) op hi lo cl ''green'' ''red''))))))
      else Inr None)"

text \<open>Lines 78 to 115: the figure for a fetched series.\<close>

definition render_figure :: "dataframe \<Rightarrow> string \<Rightarrow> string \<Rightarrow> string \<Rightarrow> exn + figure" where
  "render_figure stock_data ticker metric chart_type =
     (if metric \<in> set (column_names stock_data) then
        (case chart_trace stock_data metric chart_type of
           Inl ex \<Rightarrow> Inl ex
         | Inr None \<Rightarrow> Inr (layout_metric Figure ticker metric)
         | Inr (Some t) \<Rightarrow> Inr (layout_metric (add_trace Figure t) ticker metric))
      else Inr (layout_no_data Figure ticker metric))"

text \<open>Lines 76 to 115: fetch, then build the figure from the series alone.\<close>

definition generate_metric_graph ::
  "provider \<Rightarrow> world \<Rightarrow> string \<Rightarrow> string \<Rightarrow> string \<Rightarrow> date \<Rightarrow> date \<Rightarrow> (exn + figure) \<times> world" where
  "generate_metric_graph P w ticker metric chart_type start_date end_date =
     (case get_stock_data P w ticker start_date end_date of
        (Inl ex, w1) \<Rightarrow> (Inl ex, w1)
      | (Inr (stock_data, _), w1) \<Rightarrow>
          (render_figure stock_data ticker metric chart_type,
           w1 @ [Render ticker metric chart_type]))"

section \<open>update\_graphs\<close>

text \<open>\<^verbatim>\<open>xs[i]\<close> on a tuple, for the indices the callback uses.\<close>

definition tuple_item :: "'a list \<Rightarrow> nat \<Rightarrow> exn + 'a" where
  "tuple_item xs i = (if i < length xs then Inr (xs ! i) else Inl IndexError)"

text \<open>
  The list comprehension of lines 228 to 231: one \<^verbatim>\<open>generate_metric_graph\<close> per
  index, in order; the first exception ends it.
\<close>

fun figures_for ::
  "provider \<Rightarrow> world \<Rightarrow> string \<Rightarrow> string list \<Rightarrow> string list \<Rightarrow> date \<Rightarrow> date \<Rightarrow> nat list
     \<Rightarrow> (exn + figure list) \<times> world" where
  "figures_for P w ticker metric_values chart_values start_date end_date [] = (Inr [], w)"
| "figures_for P w ticker metric_values chart_values start_date end_date (i # is) =
     (case tuple_item metric_values i of
        Inl ex \<Rightarrow> (Inl ex, w)
      | Inr metric \<Rightarrow>
          (case tuple_item chart_values i of
             Inl ex \<Rightarrow> (Inl ex, w)
           | Inr chart_type \<Rightarrow>
               (case generate_metric_graph P w ticker metric chart_type start_date end_date of
                  (Inl ex, w1) \<Rightarrow> (Inl ex, w1)
                | (Inr fig, w1) \<Rightarrow>
                    (case figures_for P w1 ticker metric_values chart_values start_date end_date is of
                       (Inl ex, w2) \<Rightarrow> (Inl ex, w2)
                     | (Inr figs, w2) \<Rightarrow> (Inr (fig # figs), w2)))))"

text \<open>
  What the callback returns: in the idle branch a pair (four figures, an empty list), in
  the populated branch one list of the four figures followed by the table records.
\<close>

datatype out_item = FigureOut figure | RecordsOut "(string \<times> pyval) list list"

datatype retval =
    Tuple "figure list" "(string \<times> pyval) list list"
  | ListOf "out_item list"

text \<open>\<^verbatim>\<open>not ticker\<close>: the input box is unset (None) or empty.\<close>

fun falsy :: "string option \<Rightarrow> bool" where
  "falsy None = True"
| "falsy (Some t) = (t = [])"

text \<open>Lines 221 to 236.\<close>

definition update_graphs ::
  "provider \<Rightarrow> world \<Rightarrow> string option \<Rightarrow> date \<Rightarrow> date \<Rightarrow> string list \<Rightarrow> (exn + retval) \<times> world" where
  "update_graphs P w ticker start_date end_date args =
     (if falsy ticker then (Inr (Tuple (replicate 4 Figure) []), w)
      else
        (let t = the ticker;
             metric_values = take 4 args;
             chart_values = drop 4 args in
         case figures_for P w t metric_values chart_values start_date end_date [0, 1, 2, 3] of
           (Inl ex, w1) \<Rightarrow> (Inl ex, w1)
         | (Inr figures, w1) \<Rightarrow>
             (case get_stock_data P w1 t start_date end_date of
                (Inl ex, w2) \<Rightarrow> (Inl ex, w2)
              | (Inr (_, metrics_df), w2) \<Rightarrow>
                  (Inr (ListOf (map FigureOut figures @ [RecordsOut (to_dict_records metrics_df)])),
                   w2))))"


section \<open>Sample providers and inputs\<close>

text \<open>
  A conversion for the samples, the one pandas applies to small numbers: a column of
  integers only stays as it is; in any other column without strings an integer becomes
  the float of the same value and None becomes NaN.
\<close>

fun is_int :: "pyval \<Rightarrow> bool" where
  "is_int (PInt i) = True"
| "is_int (PFloat r) = False"
| "is_int PNaN = False"
| "is_int (PStr s) = False"
| "is_int PNone = False"

fun to_float64 :: "pyval \<Rightarrow> pyval" where
  "to_float64 (PInt i) = PFloat (of_int i)"
| "to_float64 PNone = PNaN"
| "to_float64 (PFloat r) = PFloat r"
| "to_float64 PNaN = PNaN"
| "to_float64 (PStr s) = PStr s"

definition sample_convert :: "pyval list \<Rightarrow> pyval \<Rightarrow> pyval" where
  "sample_convert col v = (if list_all is_int col then v else to_float64 v)"

text \<open>A provider that is down: every history request raises.\<close>

definition provider_down :: provider where
  "provider_down =
     \<lparr>yf_Ticker = (\<lambda>w t. None),
      yf_history = (\<lambda>w t s e. Inl ''connection refused''),
      yf_info = (\<lambda>w t. Inl ''connection refused''),
      pd_convert = sample_convert\<rparr>"

text \<open>A two-day OHLCV series, and a provider that answers every request with it.\<close>

definition sample_series :: dataframe where
  "sample_series =
     \<lparr>df_index = [PStr ''2024-01-02'', PStr ''2024-01-03''],
      df_columns = Alist
        [(''Open'', [PFloat 10, PFloat 11]),
         (''High'', [PFloat 12, PFloat 13]),
         (''Low'', [PFloat 9, PFloat 10]),
         (''Close'', [PFloat 11, PFloat 12]),
         (''Volume'', [PInt 1000, PInt 1500])]\<rparr>"

definition sample_info :: "string \<rightharpoonup> pyval" where
  "sample_info = map_of [(''open'', PFloat 11), (''previousClose'', PFloat 12), (''marketCap'', PInt 5000000)]"

definition provider_steady :: provider where
  "provider_steady =
     \<lparr>yf_Ticker = (\<lambda>w t. None),
      yf_history = (\<lambda>w t s e. Inr sample_series),
      yf_info = (\<lambda>w t. Inr sample_info),
      pd_convert = sample_convert\<rparr>"



text \<open>The layout's default selections: Close as a line in each of the four panels.\<close>

definition default_args :: "string list" where
  "default_args =
     [''Close'', ''Close'', ''Close'', ''Close'', ''lines'', ''lines'', ''lines'', ''lines'']"

text \<open>The sample series with columns taken away.\<close>

definition series_without_open :: dataframe where
  "series_without_open =
     \<lparr>df_index = [PStr ''2024-01-02'', PStr ''2024-01-03''],
      df_columns = Alist
        [(''High'', [PFloat 12, PFloat 13]),
         (''Low'', [PFloat 9, PFloat 10]),
         (''Close'', [PFloat 11, PFloat 12]),
         (''Volume'', [PInt 1000, PInt 1500])]\<rparr>"

definition series_without_high_close :: dataframe where
  "series_without_high_close =
     \<lparr>df_index = [PStr ''2024-01-02'', PStr ''2024-01-03''],
      df_columns = Alist
        [(''Open'', [PFloat 10, PFloat 11]),
         (''Low'', [PFloat 9, PFloat 10]),
         (''Volume'', [PInt 1000, PInt 1500])]\<rparr>"

definition series_without_volume :: dataframe where
  "series_without_volume =
     \<lparr>df_index = [PStr ''2024-01-02'', PStr ''2024-01-03''],
      df_columns = Alist
        [(''Open'', [PFloat 10, PFloat 11]),
         (''High'', [PFloat 12, PFloat 13]),
         (''Low'', [PFloat 9, PFloat 10]),
         (''Close'', [PFloat 11, PFloat 12])]\<rparr>"

text \<open>A series whose second Volume is negative, and one whose second Volume is NaN.\<close>

definition series_negative_volume :: dataframe where
  "series_negative_volume =
     \<lparr>df_index = [PStr ''2024-01-02'', PStr ''2024-01-03''],
      df_columns = Alist
        [(''Close'', [PFloat 11, PFloat 12]),
         (''Volume'', [PInt 1000, PInt (- 5)])]\<rparr>"

definition series_nan_volume :: dataframe where
  "series_nan_volume =
     \<lparr>df_index = [PStr ''2024-01-02'', PStr ''2024-01-03''],
      df_columns = Alist
        [(''Close'', [PFloat 11, PFloat 12]),
         (''Volume'', [PFloat 1000, PNaN])]\<rparr>"

text \<open>A provider that itself rejects a range whose start is after its end.\<close>

definition provider_strict :: provider where
  "provider_strict =
     \<lparr>yf_Ticker = (\<lambda>w t. None),
      yf_history = (\<lambda>w t s e.
         if e < s then Inl ''start date cannot be after end date''
         else Inr sample_series),
      yf_info = (\<lambda>w t. Inr sample_info),
      pd_convert = sample_convert\<rparr>"

text \<open>
  A provider whose answer depends on what happened before: the first, third, fifth
  fetch gets the sample series, every other one fails.
\<close>

definition provider_alternating :: provider where
  "provider_alternating =
     \<lparr>yf_Ticker = (\<lambda>w t. None),
      yf_history = (\<lambda>w t s e.
         if odd (length (fetches w)) then Inr sample_series else Inl ''rate limited''),
      yf_info = (\<lambda>w t. Inr sample_info),
      pd_convert = sample_convert\<rparr>"

section \<open>Frames and records\<close>

lemma columns_Alist:
  "distinct (map fst cols) \<Longrightarrow> DAList.impl_of (Alist cols) = cols"
  by (rule impl_of_Alist)

lemma getitem_map_of:
  "getitem df name =
     (case map_of (DAList.impl_of (df_columns df)) name of
        None \<Rightarrow> Inl (KeyError name) | Some col \<Rightarrow> Inr col)"
  by (simp add: getitem_def lookup.rep_eq)

lemma getitem_present:
  "name \<in> set (column_names df) \<Longrightarrow> \<exists>col. getitem df name = Inr col"
  by (cases "map_of (DAList.impl_of (df_columns df)) name")
     (auto simp add: getitem_map_of column_names_def map_of_eq_None_iff)

lemma getitem_absent:
  "name \<notin> set (column_names df) \<Longrightarrow> getitem df name = Inl (KeyError name)"
  by (cases "map_of (DAList.impl_of (df_columns df)) name")
     (auto simp add: getitem_map_of column_names_def map_of_eq_None_iff [symmetric]
        simp del: map_of_eq_None_iff)

lemma column_names_empty: "column_names DataFrame_empty = []"
  by (simp add: column_names_def DataFrame_empty_def empty.rep_eq)




lemma infer_objects_no_str:
  "\<not> list_ex is_str col \<Longrightarrow> infer_objects convert col = map (convert col) col"
  by (simp add: infer_objects_def)



lemma column_names_sample:
  "column_names sample_series = [''Open'', ''High'', ''Low'', ''Close'', ''Volume'']"
  by (simp add: column_names_def sample_series_def columns_Alist)

lemma column_names_without_open:
  "column_names series_without_open = [''High'', ''Low'', ''Close'', ''Volume'']"
  by (simp add: column_names_def series_without_open_def columns_Alist)

lemma column_names_without_high_close:
  "column_names series_without_high_close = [''Open'', ''Low'', ''Volume'']"
  by (simp add: column_names_def series_without_high_close_def columns_Alist)

lemma column_names_without_volume:
  "column_names series_without_volume = [''Open'', ''High'', ''Low'', ''Close'']"
  by (simp add: column_names_def series_without_volume_def columns_Alist)

lemma column_names_negative_volume:
  "column_names series_negative_volume = [''Close'', ''Volume'']"
  by (simp add: column_names_def series_negative_volume_def columns_Alist)

lemma column_names_nan_volume:
  "column_names series_nan_volume = [''Close'', ''Volume'']"
  by (simp add: column_names_def series_nan_volume_def columns_Alist)

lemma getitem_sample:
  "getitem sample_series ''Open'' = Inr [PFloat 10, PFloat 11]"
  "getitem sample_series ''High'' = Inr [PFloat 12, PFloat 13]"
  "getitem sample_series ''Low'' = Inr [PFloat 9, PFloat 10]"
  "getitem sample_series ''Close'' = Inr [PFloat 11, PFloat 12]"
  "getitem sample_series ''Volume'' = Inr [PInt 1000, PInt 1500]"
  by (simp_all add: getitem_map_of sample_series_def columns_Alist)

lemma getitem_negative_volume:
  "getitem series_negative_volume ''Close'' = Inr [PFloat 11, PFloat 12]"
  "getitem series_negative_volume ''Volume'' = Inr [PInt 1000, PInt (- 5)]"
  by (simp_all add: getitem_map_of series_negative_volume_def columns_Alist)

lemma getitem_nan_volume:
  "getitem series_nan_volume ''Close'' = Inr [PFloat 11, PFloat 12]"
  "getitem series_nan_volume ''Volume'' = Inr [PFloat 1000, PNaN]"
  by (simp_all add: getitem_map_of series_nan_volume_def columns_Alist)

lemma df_index_sample: "df_index sample_series = [PStr ''2024-01-02'', PStr ''2024-01-03'']"
  by (simp add: sample_series_def)

section \<open>The four ways through get\_stock\_data\<close>

lemma get_stock_data_init_raises:
  "yf_Ticker P (w @ [Fetch ticker s e]) ticker = Some msg \<Longrightarrow>
     fst (get_stock_data P w ticker s e) = Inl (ProviderError msg)"
  by (simp add: get_stock_data_def)




lemma fetches_append: "fetches (a @ b) = fetches a @ fetches b"
  by (simp add: fetches_def)

lemma renders_append: "renders (a @ b) = renders a @ renders b"
  by (simp add: renders_def)

lemma fetches_get_stock_data:
  "fetches (snd (get_stock_data P w ticker s e)) = fetches w @ [Fetch ticker s e]"
  by (simp add: get_stock_data_def fetches_def Let_def split: option.split sum.split)

lemma renders_get_stock_data:
  "renders (snd (get_stock_data P w ticker s e)) = renders w"
  by (simp add: get_stock_data_def renders_def Let_def split: option.split sum.split)

lemma get_stock_data_steady_full:
  "get_stock_data provider_steady w ticker s e
     = (Inr (sample_series, DataFrame_items sample_convert (metrics_items sample_info)),
        w @ [Fetch ticker s e])"
  by (simp add: get_stock_data_def provider_steady_def)

lemma get_stock_data_steady:
  "fst (get_stock_data provider_steady w ticker s e)
     = Inr (sample_series, DataFrame_items sample_convert (metrics_items sample_info))"
  by (simp add: get_stock_data_steady_full)

lemma get_stock_data_strict_forward:
  "\<not> e < s \<Longrightarrow> fst (get_stock_data provider_strict w ticker s e)
     = Inr (sample_series, DataFrame_items sample_convert (metrics_items sample_info))"
  by (simp add: get_stock_data_def provider_strict_def)











section \<open>The fetch result\<close>






section \<open>Figures from a series\<close>

lemma render_figure_absent:
  "metric \<notin> set (column_names stock_data) \<Longrightarrow>
     render_figure stock_data ticker metric chart_type = Inr (placeholder ticker metric)"
  by (simp add: render_figure_def placeholder_def)

lemma title_placeholder:
  "lo_title (fig_layout (placeholder ticker metric))
     = Some (''No data available for '' @ metric @ '' of '' @ ticker)"
  "fig_data (placeholder ticker metric) = []"
  by (simp_all add: placeholder_def layout_no_data_def Figure_def)

lemma layout_metric_not_placeholder:
  "layout_metric fig ticker metric \<noteq> placeholder ticker' metric'"
proof
  assume "layout_metric fig ticker metric = placeholder ticker' metric'"
  then have "lo_xaxis_title (fig_layout (layout_metric fig ticker metric))
               = lo_xaxis_title (fig_layout (placeholder ticker' metric'))"
    by simp
  then show False
    by (simp add: layout_metric_def placeholder_def layout_no_data_def Figure_def)
qed

text \<open>The candlestick branch, column by column.\<close>

lemma candlestick_trace_open:
  "''Open'' \<notin> set (column_names df) \<Longrightarrow>
     chart_trace df metric ''candlestick'' = Inl (KeyError ''Open'')"
  by (simp add: chart_trace_def getitem_absent)

lemma candlestick_trace_high:
  "''Open'' \<in> set (column_names df) \<Longrightarrow> ''High'' \<notin> set (column_names df) \<Longrightarrow>
     chart_trace df metric ''candlestick'' = Inl (KeyError ''High'')"
  using getitem_present [of "''Open''" df]
  by (auto simp add: chart_trace_def getitem_absent)

lemma candlestick_trace_low:
  "''Open'' \<in> set (column_names df) \<Longrightarrow> ''High'' \<in> set (column_names df) \<Longrightarrow>
   ''Low'' \<notin> set (column_names df) \<Longrightarrow>
     chart_trace df metric ''candlestick'' = Inl (KeyError ''Low'')"
  using getitem_present [of "''Open''" df] getitem_present [of "''High''" df]
  by (auto simp add: chart_trace_def getitem_absent)

lemma candlestick_trace_close:
  "''Open'' \<in> set (column_names df) \<Longrightarrow> ''High'' \<in> set (column_names df) \<Longrightarrow>
   ''Low'' \<in> set (column_names df) \<Longrightarrow> ''Close'' \<notin> set (column_names df) \<Longrightarrow>
     chart_trace df metric ''candlestick'' = Inl (KeyError ''Close'')"
  using getitem_present [of "''Open''" df] getitem_present [of "''High''" df]
    getitem_present [of "''Low''" df]
  by (auto simp add: chart_trace_def getitem_absent)

lemma render_figure_raised:
  "metric \<in> set (column_names df) \<Longrightarrow> chart_trace df metric chart_type = Inl ex \<Longrightarrow>
     render_figure df ticker metric chart_type = Inl ex"
  by (simp add: render_figure_def)

section \<open>Candlestick\<close>

text \<open>
  A series with Close, High, Low and Volume but no Open, drawn as a candlestick of Close:
  the lookup of the Open column raises; no placeholder is returned.
\<close>

theorem candlestick_missing_open_counterexample:
  "''Close'' \<in> set (column_names series_without_open)
   \<and> ''Open'' \<notin> set (column_names series_without_open)
   \<and> render_figure series_without_open ''XYZ'' ''Close'' ''candlestick'' = Inl (KeyError ''Open'')"
  by (simp add: column_names_without_open render_figure_raised candlestick_trace_open)

text \<open>
  C3, as the code has it. A candlestick is the no-data placeholder exactly when the
  selected metric has no column. With the metric's column and all of Open, High, Low,
  Close present, the figure carries one candlestick trace over those four columns and the
  title of the metric. With the metric's column present and one of the four absent, the
  lookup of the first absent one in the order Open, High, Low, Close raises KeyError with
  that name. So taking one of the four columns away yields the placeholder only when the
  column taken away is the selected metric itself.
\<close>

theorem candlestick_rendering:
  "(metric \<notin> set (column_names stock_data) \<longrightarrow>
      render_figure stock_data ticker metric ''candlestick'' = Inr (placeholder ticker metric))
   \<and> (metric \<in> set (column_names stock_data)
        \<and> {''Open'', ''High'', ''Low'', ''Close''} \<subseteq> set (column_names stock_data) \<longrightarrow>
      (\<exists>op hi lo cl.
         getitem stock_data ''Open'' = Inr op \<and> getitem stock_data ''High'' = Inr hi
         \<and> getitem stock_data ''Low'' = Inr lo \<and> getitem stock_data ''Close'' = Inr cl
         \<and> render_figure stock_data ticker metric ''candlestick''
             = Inr (layout_metric
                 (add_trace Figure (Candlestick (df_index stock_data) op hi lo cl ''green'' ''red''))
                 ticker metric)))
   \<and> (metric \<in> set (column_names stock_data) \<longrightarrow>
        (''Open'' \<notin> set (column_names stock_data) \<longrightarrow>
           render_figure stock_data ticker metric ''candlestick'' = Inl (KeyError ''Open''))
      \<and> (''Open'' \<in> set (column_names stock_data) \<and> ''High'' \<notin> set (column_names stock_data) \<longrightarrow>
           render_figure stock_data ticker metric ''candlestick'' = Inl (KeyError ''High''))
      \<and> (''Open'' \<in> set (column_names stock_data) \<and> ''High'' \<in> set (column_names stock_data)
           \<and> ''Low'' \<notin> set (column_names stock_data) \<longrightarrow>
           render_figure stock_data ticker metric ''candlestick'' = Inl (KeyError ''Low''))
      \<and> (''Open'' \<in> set (column_names stock_data) \<and> ''High'' \<in> set (column_names stock_data)
           \<and> ''Low'' \<in> set (column_names stock_data) \<and> ''Close'' \<notin> set (column_names stock_data) \<longrightarrow>
           render_figure stock_data ticker metric ''candlestick'' = Inl (KeyError ''Close'')))
   \<and> (render_figure stock_data ticker metric ''candlestick'' = Inr (placeholder ticker metric))
       = (metric \<notin> set (column_names stock_data))"
  (is "?absent \<and> ?drawn \<and> ?raised \<and> ?iff")
proof -
  let ?r = "render_figure stock_data ticker metric ''candlestick''"
  have absent: ?absent
    by (simp add: render_figure_absent)
  have drawn: ?drawn
  proof
    assume a: "metric \<in> set (column_names stock_data)
        \<and> {''Open'', ''High'', ''Low'', ''Close''} \<subseteq> set (column_names stock_data)"
    then obtain op hi lo cl where
      "getitem stock_data ''Open'' = Inr op" "getitem stock_data ''High'' = Inr hi"
      "getitem stock_data ''Low'' = Inr lo" "getitem stock_data ''Close'' = Inr cl"
      using getitem_present [of "''Open''" stock_data] getitem_present [of "''High''" stock_data]
        getitem_present [of "''Low''" stock_data] getitem_present [of "''Close''" stock_data]
      by auto
    with a show "\<exists>op hi lo cl.
         getitem stock_data ''Open'' = Inr op \<and> getitem stock_data ''High'' = Inr hi
         \<and> getitem stock_data ''Low'' = Inr lo \<and> getitem stock_data ''Close'' = Inr cl
         \<and> ?r = Inr (layout_metric
                 (add_trace Figure (Candlestick (df_index stock_data) op hi lo cl ''green'' ''red''))
                 ticker metric)"
      by (simp add: render_figure_def chart_trace_def)
  qed
  have raised: ?raised
    by (simp add: render_figure_raised candlestick_trace_open candlestick_trace_high
        candlestick_trace_low candlestick_trace_close)
  have iff: ?iff
  proof (cases "metric \<in> set (column_names stock_data)")
    case False
    with absent show ?thesis by simp
  next
    case True
    show ?thesis
    proof (cases "{''Open'', ''High'', ''Low'', ''Close''} \<subseteq> set (column_names stock_data)")
      case all: True
      with True drawn show ?thesis
        by (auto simp add: layout_metric_not_placeholder layout_metric_not_placeholder [THEN not_sym])
    next
      case False
      with True raised have "isl ?r" by auto
      with True show ?thesis by auto
    qed
  qed
  from absent drawn raised iff show ?thesis by blast
qed

theorem candlestick_rendering_witness:
  "''Market Cap'' \<notin> set (column_names sample_series)
   \<and> render_figure sample_series ''XYZ'' ''Market Cap'' ''candlestick''
       = Inr (placeholder ''XYZ'' ''Market Cap'')
   \<and> ''Close'' \<in> set (column_names sample_series)
   \<and> {''Open'', ''High'', ''Low'', ''Close''} \<subseteq> set (column_names sample_series)
   \<and> render_figure sample_series ''XYZ'' ''Close'' ''candlestick''
       = Inr (layout_metric
           (add_trace Figure
              (Candlestick [PStr ''2024-01-02'', PStr ''2024-01-03'']
                 [PFloat 10, PFloat 11] [PFloat 12, PFloat 13] [PFloat 9, PFloat 10]
                 [PFloat 11, PFloat 12] ''green'' ''red''))
           ''XYZ'' ''Close'')
   \<and> ''Close'' \<in> set (column_names series_without_open)
   \<and> ''Open'' \<notin> set (column_names series_without_open)
   \<and> render_figure series_without_open ''XYZ'' ''Close'' ''candlestick'' = Inl (KeyError ''Open'')
   \<and> ''Volume'' \<in> set (column_names series_without_high_close)
   \<and> ''Open'' \<in> set (column_names series_without_high_close)
   \<and> ''High'' \<notin> set (column_names series_without_high_close)
   \<and> ''Close'' \<notin> set (column_names series_without_high_close)
   \<and> render_figure series_without_high_close ''XYZ'' ''Volume'' ''candlestick''
       = Inl (KeyError ''High'')"
  using candlestick_rendering [of "''Market Cap''" sample_series "''XYZ''"]
    candlestick_rendering [of "''Close''" sample_series "''XYZ''"]
    candlestick_rendering [of "''Close''" series_without_open "''XYZ''"]
    candlestick_rendering [of "''Volume''" series_without_high_close "''XYZ''"]
  by (auto simp add: column_names_sample column_names_without_open
      column_names_without_high_close getitem_sample df_index_sample)

text \<open>The bubble branch.\<close>

lemma bubble_trace_no_volume:
  "metric \<in> set (column_names df) \<Longrightarrow> ''Volume'' \<notin> set (column_names df) \<Longrightarrow>
     chart_trace df metric ''bubble'' = Inl (KeyError ''Volume'')"
  using getitem_present [of metric df]
  by (auto simp add: chart_trace_def getitem_absent)

section \<open>Bubble\<close>

text \<open>
  A series with the four price columns and no Volume, drawn as a bubble chart of Close:
  the lookup of the Volume column raises; no marker size is substituted.
\<close>

theorem bubble_without_volume_counterexample:
  "''Close'' \<in> set (column_names series_without_volume)
   \<and> ''Volume'' \<notin> set (column_names series_without_volume)
   \<and> render_figure series_without_volume ''XYZ'' ''Close'' ''bubble'' = Inl (KeyError ''Volume'')"
  by (simp add: column_names_without_volume render_figure_raised bubble_trace_no_volume)

text \<open>
  C4, as the code has it. A bubble chart is the no-data placeholder exactly when the
  metric has no column. With the metric's column present and Volume absent, the lookup of
  Volume raises KeyError. With both present, the marker sizes are the Volume column: when
  every Volume is a number that is not negative the figure carries one marker trace of
  the metric with those sizes, and when some Volume is negative, NaN or not a number the
  trace constructor raises ValueError. No constant marker size is substituted in any case.
\<close>

theorem bubble_rendering:
  "(metric \<notin> set (column_names stock_data) \<longrightarrow>
      render_figure stock_data ticker metric ''bubble'' = Inr (placeholder ticker metric))
   \<and> (metric \<in> set (column_names stock_data) \<and> ''Volume'' \<in> set (column_names stock_data) \<longrightarrow>
      (\<exists>y v.
         getitem stock_data metric = Inr y \<and> getitem stock_data ''Volume'' = Inr v
         \<and> (list_all valid_size v \<longrightarrow>
              render_figure stock_data ticker metric ''bubble''
                = Inr (layout_metric
                    (add_trace Figure
                       (Scatter (df_index stock_data) y ''markers'' None (Some theme_line) (Some v)))
                    ticker metric))
         \<and> (\<not> list_all valid_size v \<longrightarrow>
              render_figure stock_data ticker metric ''bubble'' = Inl ValueError)))
   \<and> (metric \<in> set (column_names stock_data) \<and> ''Volume'' \<notin> set (column_names stock_data) \<longrightarrow>
      render_figure stock_data ticker metric ''bubble'' = Inl (KeyError ''Volume''))
   \<and> (render_figure stock_data ticker metric ''bubble'' = Inr (placeholder ticker metric))
       = (metric \<notin> set (column_names stock_data))"
  (is "?absent \<and> ?sized \<and> ?raised \<and> ?iff")
proof -
  let ?r = "render_figure stock_data ticker metric ''bubble''"
  have absent: ?absent
    by (simp add: render_figure_absent)
  have sized: ?sized
  proof
    assume a: "metric \<in> set (column_names stock_data) \<and> ''Volume'' \<in> set (column_names stock_data)"
    then obtain y v where "getitem stock_data metric = Inr y" "getitem stock_data ''Volume'' = Inr v"
      using getitem_present [of metric stock_data] getitem_present [of "''Volume''" stock_data]
      by auto
    with a show "\<exists>y v.
         getitem stock_data metric = Inr y \<and> getitem stock_data ''Volume'' = Inr v
         \<and> (list_all valid_size v \<longrightarrow>
              ?r = Inr (layout_metric
                    (add_trace Figure
                       (Scatter (df_index stock_data) y ''markers'' None (Some theme_line) (Some v)))
                    ticker metric))
         \<and> (\<not> list_all valid_size v \<longrightarrow> ?r = Inl ValueError)"
      by (simp add: render_figure_def chart_trace_def)
  qed
  have raised: ?raised
    by (simp add: render_figure_raised bubble_trace_no_volume)
  have iff: ?iff
  proof (cases "metric \<in> set (column_names stock_data)")
    case False
    with absent show ?thesis by simp
  next
    case True
    show ?thesis
    proof (cases "''Volume'' \<in> set (column_names stock_data)")
      case vol: True
      with True sized obtain y v where
        ok: "list_all valid_size v \<longrightarrow>
              ?r = Inr (layout_metric
                    (add_trace Figure
                       (Scatter (df_index stock_data) y ''markers'' None (Some theme_line) (Some v)))
                    ticker metric)"
        and bad: "\<not> list_all valid_size v \<longrightarrow> ?r = Inl ValueError"
        by blast
      show ?thesis
      proof (cases "list_all valid_size v")
        case True
        with ok \<open>metric \<in> set (column_names stock_data)\<close> show ?thesis
          by (simp add: layout_metric_not_placeholder)
      next
        case False
        with bad \<open>metric \<in> set (column_names stock_data)\<close> show ?thesis
          by simp
      qed
    next
      case False
      with True raised show ?thesis by auto
    qed
  qed
  from absent sized raised iff show ?thesis by blast
qed

theorem bubble_rendering_witness:
  "''PE Ratio'' \<notin> set (column_names sample_series)
   \<and> render_figure sample_series ''XYZ'' ''PE Ratio'' ''bubble'' = Inr (placeholder ''XYZ'' ''PE Ratio'')
   \<and> ''Close'' \<in> set (column_names sample_series) \<and> ''Volume'' \<in> set (column_names sample_series)
   \<and> list_all valid_size [PInt 1000, PInt 1500]
   \<and> render_figure sample_series ''XYZ'' ''Close'' ''bubble''
       = Inr (layout_metric
           (add_trace Figure
              (Scatter [PStr ''2024-01-02'', PStr ''2024-01-03''] [PFloat 11, PFloat 12]
                 ''markers'' None (Some theme_line) (Some [PInt 1000, PInt 1500])))
           ''XYZ'' ''Close'')
   \<and> ''Close'' \<in> set (column_names series_negative_volume)
   \<and> ''Volume'' \<in> set (column_names series_negative_volume)
   \<and> \<not> list_all valid_size [PInt 1000, PInt (- 5)]
   \<and> render_figure series_negative_volume ''XYZ'' ''Close'' ''bubble'' = Inl ValueError
   \<and> \<not> list_all valid_size [PFloat 1000, PNaN]
   \<and> render_figure series_nan_volume ''XYZ'' ''Close'' ''bubble'' = Inl ValueError
   \<and> ''Close'' \<in> set (column_names series_without_volume)
   \<and> ''Volume'' \<notin> set (column_names series_without_volume)
   \<and> render_figure series_without_volume ''XYZ'' ''Close'' ''bubble'' = Inl (KeyError ''Volume'')"
  using bubble_rendering [of "''PE Ratio''" sample_series "''XYZ''"]
    bubble_rendering [of "''Close''" sample_series "''XYZ''"]
    bubble_rendering [of "''Close''" series_negative_volume "''XYZ''"]
    bubble_rendering [of "''Close''" series_nan_volume "''XYZ''"]
    bubble_rendering [of "''Close''" series_without_volume "''XYZ''"]
  by (auto simp add: column_names_sample column_names_without_volume column_names_negative_volume
      column_names_nan_volume getitem_sample getitem_negative_volume getitem_nan_volume
      df_index_sample)

lemma generate_metric_graph_fetched:
  "fst (get_stock_data P w ticker s e) = Inr (stock_data, metrics) \<Longrightarrow>
     fst (generate_metric_graph P w ticker metric chart_type s e)
       = render_figure stock_data ticker metric chart_type"
  by (cases "get_stock_data P w ticker s e") (simp add: generate_metric_graph_def)

lemma generate_metric_graph_raised:
  "fst (get_stock_data P w ticker s e) = Inl ex \<Longrightarrow>
     fst (generate_metric_graph P w ticker metric chart_type s e) = Inl ex"
  by (cases "get_stock_data P w ticker s e") (simp add: generate_metric_graph_def)

lemma render_figure_empty:
  "render_figure DataFrame_empty ticker metric chart_type = Inr (placeholder ticker metric)"
  by (simp add: render_figure_absent column_names_empty)

lemma render_sample_close_lines:
  "render_figure sample_series ticker ''Close'' ''lines''
     = Inr (layout_metric
         (add_trace Figure
            (Scatter [PStr ''2024-01-02'', PStr ''2024-01-03''] [PFloat 11, PFloat 12]
               ''lines'' (Some theme_line) None None))
         ticker ''Close'')"
  by (simp add: render_figure_def chart_trace_def column_names_sample getitem_sample
      df_index_sample)

lemma title_layout_metric:
  "lo_title (fig_layout (layout_metric fig ticker metric)) = Some (metric @ '' for '' @ ticker)"
  by (simp add: layout_metric_def)

lemma update_graphs_idle:
  "falsy ticker \<Longrightarrow>
     update_graphs P w ticker start_date end_date args = (Inr (Tuple (replicate 4 Figure) []), w)"
  by (simp add: update_graphs_def)

section \<open>Choropleth\<close>

text \<open>
  The sample series drawn as a choropleth of Close: no trace, but the title is the one of
  a chart with data, not the no-data title.
\<close>

theorem choropleth_with_data_counterexample:
  "render_figure sample_series ''XYZ'' ''Close'' ''choropleth''
     = Inr (layout_metric Figure ''XYZ'' ''Close'')
   \<and> lo_title (fig_layout (layout_metric Figure ''XYZ'' ''Close'')) = Some ''Close for XYZ''
   \<and> lo_title (fig_layout (placeholder ''XYZ'' ''Close''))
       = Some ''No data available for Close of XYZ''"
  by (simp add: render_figure_def chart_trace_def column_names_sample title_layout_metric
      title_placeholder)

text \<open>
  C5, as the code has it. For every series and every metric a choropleth never raises and
  its figure has an empty body. Its title is the no-data one, and the figure is the
  placeholder, exactly when the metric has no column in the series; when the metric has a
  column, the figure is titled with the metric and the symbol like any chart with data.
\<close>

theorem choropleth_rendering:
  "\<exists>fig. render_figure stock_data ticker metric ''choropleth'' = Inr fig
     \<and> fig_data fig = []
     \<and> lo_title (fig_layout fig)
         = Some (if metric \<in> set (column_names stock_data) then metric @ '' for '' @ ticker
                 else ''No data available for '' @ metric @ '' of '' @ ticker)
     \<and> (fig = placeholder ticker metric) = (metric \<notin> set (column_names stock_data))"
proof (cases "metric \<in> set (column_names stock_data)")
  case True
  then have "render_figure stock_data ticker metric ''choropleth''
               = Inr (layout_metric Figure ticker metric)"
    by (simp add: render_figure_def chart_trace_def)
  with True show ?thesis
    by (simp add: layout_metric_not_placeholder) (simp add: layout_metric_def Figure_def)
next
  case False
  then have "render_figure stock_data ticker metric ''choropleth'' = Inr (placeholder ticker metric)"
    by (rule render_figure_absent)
  with False show ?thesis
    by (simp add: title_placeholder)
qed

theorem choropleth_rendering_witness:
  "render_figure sample_series ''XYZ'' ''Close'' ''choropleth''
     = Inr (layout_metric Figure ''XYZ'' ''Close'')
   \<and> render_figure DataFrame_empty ''XYZ'' ''Close'' ''choropleth''
     = Inr (placeholder ''XYZ'' ''Close'')"
  using choropleth_rendering [of sample_series "''XYZ''" "''Close''"]
    choropleth_rendering [of DataFrame_empty "''XYZ''" "''Close''"]
  by (auto simp add: render_figure_def chart_trace_def column_names_sample column_names_empty
      placeholder_def)

section \<open>The idle branch\<close>

text \<open>
  C6. With the symbol empty or unset, \<^verbatim>\<open>update_graphs\<close> returns four empty figures and an
  empty table, and the trace is unchanged: no fetch (and no render) is performed.
\<close>

theorem idle_returns_empty_without_fetch:
  assumes "falsy ticker"
  shows "fst (update_graphs P w ticker start_date end_date args)
           = Inr (Tuple [Figure, Figure, Figure, Figure] [])
       \<and> snd (update_graphs P w ticker start_date end_date args) = w
       \<and> length (fetches (snd (update_graphs P w ticker start_date end_date args)))
           = length (fetches w)"
  using assms by (simp add: update_graphs_idle numeral_eq_Suc)

theorem idle_returns_empty_without_fetch_witness:
  "falsy (Some [])
   \<and> fst (update_graphs provider_steady [] (Some []) ''2024-01-01'' ''2024-06-01'' default_args)
       = Inr (Tuple [Figure, Figure, Figure, Figure] [])
   \<and> fetches (snd (update_graphs provider_steady [] (Some []) ''2024-01-01'' ''2024-06-01'' default_args))
       = []"
  using idle_returns_empty_without_fetch [of "Some []" provider_steady "[]" "''2024-01-01''" "''2024-06-01''" default_args]
  by (simp add: fetches_def)

section \<open>A range that ends before it starts\<close>




section \<open>Snapshot-only metrics\<close>

text \<open>
  C9. When the fetched series has exactly the columns Open, High, Low, Close and Volume,
  the metrics Market Cap, PE Ratio and Dividend Yield name no column of it, and
  \<^verbatim>\<open>generate_metric_graph\<close> returns the no-data placeholder for each of them under every
  chart type.
\<close>

theorem snapshot_metrics_never_chartable:
  assumes "fst (get_stock_data P w ticker start_date end_date) = Inr (stock_data, metrics)"
    and "set (column_names stock_data) = {''Open'', ''High'', ''Low'', ''Close'', ''Volume''}"
    and "metric \<in> {''Market Cap'', ''PE Ratio'', ''Dividend Yield''}"
  shows "render_figure stock_data ticker metric chart_type = Inr (placeholder ticker metric)
       \<and> fst (generate_metric_graph P w ticker metric chart_type start_date end_date)
           = Inr (placeholder ticker metric)"
proof -
  from assms(2,3) have "metric \<notin> set (column_names stock_data)" by auto
  then have "render_figure stock_data ticker metric chart_type = Inr (placeholder ticker metric)"
    by (rule render_figure_absent)
  with generate_metric_graph_fetched [OF assms(1)] show ?thesis by simp
qed

theorem snapshot_metrics_never_chartable_witness:
  "fst (get_stock_data provider_steady [] ''XYZ'' ''2024-01-01'' ''2024-06-01'')
     = Inr (sample_series, DataFrame_items sample_convert (metrics_items sample_info))
   \<and> set (column_names sample_series) = {''Open'', ''High'', ''Low'', ''Close'', ''Volume''}
   \<and> ''Market Cap'' \<in> {''Market Cap'', ''PE Ratio'', ''Dividend Yield''}
   \<and> fst (generate_metric_graph provider_steady [] ''XYZ'' ''Market Cap'' ''lines''
             ''2024-01-01'' ''2024-06-01'')
       = Inr (placeholder ''XYZ'' ''Market Cap'')
   \<and> lo_title (fig_layout (placeholder ''XYZ'' ''Market Cap''))
       = Some ''No data available for Market Cap of XYZ''"
proof -
  have cols: "set (column_names sample_series) = {''Open'', ''High'', ''Low'', ''Close'', ''Volume''}"
    by (simp add: column_names_sample)
  have m: "''Market Cap'' \<in> {''Market Cap'', ''PE Ratio'', ''Dividend Yield''}"
    by simp
  have f: "fst (get_stock_data provider_steady [] ''XYZ'' ''2024-01-01'' ''2024-06-01'')
     = Inr (sample_series, DataFrame_items sample_convert (metrics_items sample_info))"
    by (rule get_stock_data_steady)
  from snapshot_metrics_never_chartable [OF f cols m, where chart_type = "''lines''"] f cols
  show ?thesis
    by (simp add: title_placeholder)
qed

section \<open>The idle output does not depend on the other inputs\<close>

text \<open>
  C10. For an empty or unset symbol the value returned by \<^verbatim>\<open>update_graphs\<close> is one fixed
  value, four empty figures and an empty table: any two runs agree, whatever their dates,
  panel selections, providers and earlier traces.
\<close>

theorem idle_output_is_fixed:
  assumes "falsy ticker1" and "falsy ticker2"
  shows "fst (update_graphs P1 w1 ticker1 start1 end1 args1)
           = fst (update_graphs P2 w2 ticker2 start2 end2 args2)
       \<and> fst (update_graphs P1 w1 ticker1 start1 end1 args1)
           = Inr (Tuple [Figure, Figure, Figure, Figure] [])"
  using assms by (simp add: update_graphs_idle numeral_eq_Suc)

theorem idle_output_is_fixed_witness:
  "falsy None \<and> falsy (Some [])
   \<and> fst (update_graphs provider_steady [] None ''2024-01-01'' ''2024-06-01'' default_args)
       = fst (update_graphs provider_down [Print ''ready''] (Some []) ''2023-05-05'' ''2023-01-01''
           [''Volume'', ''Open'', ''High'', ''Low'', ''bars'', ''bubble'', ''candlestick'',
            ''choropleth''])"
  using idle_output_is_fixed [of None "Some []" provider_steady "[]" "''2024-01-01''"
      "''2024-06-01''" default_args provider_down "[Print ''ready'']" "''2023-05-05''" "''2023-01-01''"
      "[''Volume'', ''Open'', ''High'', ''Low'', ''bars'', ''bubble'', ''candlestick'',
            ''choropleth'']"]
  by simp

lemma generate_metric_graph_fetches:
  "fetches (snd (generate_metric_graph P w ticker metric chart_type s e))
     = fetches w @ [Fetch ticker s e]"
proof (cases "get_stock_data P w ticker s e")
  case (Pair r w1)
  with fetches_get_stock_data [of P w ticker s e] have "fetches w1 = fetches w @ [Fetch ticker s e]"
    by simp
  with Pair show ?thesis
    by (cases r) (auto simp add: generate_metric_graph_def fetches_append, simp add: fetches_def)
qed

lemma generate_metric_graph_success:
  assumes "generate_metric_graph P w ticker metric chart_type s e = (Inr fig, w1)"
  shows "\<exists>series metrics.
           fst (get_stock_data P w ticker s e) = Inr (series, metrics)
         \<and> render_figure series ticker metric chart_type = Inr fig
         \<and> w1 = snd (get_stock_data P w ticker s e) @ [Render ticker metric chart_type]"
proof (cases "get_stock_data P w ticker s e")
  case (Pair r w0)
  with assms show ?thesis
    by (cases r) (auto simp add: generate_metric_graph_def)
qed

lemma figures_for_Cons_success:
  assumes "figures_for P w ticker ms cs s e (i # is) = (Inr figs, w')"
  shows "\<exists>fig rest w1.
           i < length ms \<and> i < length cs
         \<and> generate_metric_graph P w ticker (ms ! i) (cs ! i) s e = (Inr fig, w1)
         \<and> figures_for P w1 ticker ms cs s e is = (Inr rest, w')
         \<and> figs = fig # rest"
proof -
  from assms obtain metric where m: "tuple_item ms i = Inr metric"
    by (cases "tuple_item ms i") auto
  from assms m obtain chart_type where c: "tuple_item cs i = Inr chart_type"
    by (cases "tuple_item cs i") auto
  obtain r w1 where g: "generate_metric_graph P w ticker metric chart_type s e = (r, w1)"
    by (cases "generate_metric_graph P w ticker metric chart_type s e")
  from assms m c g obtain fig where r: "r = Inr fig"
    by (cases r) auto
  obtain r2 w2 where rest: "figures_for P w1 ticker ms cs s e is = (r2, w2)"
    by (cases "figures_for P w1 ticker ms cs s e is")
  from assms m c g r rest obtain figs' where "r2 = Inr figs'" "figs = fig # figs'" "w' = w2"
    by (cases r2) auto
  moreover from m have "i < length ms" "metric = ms ! i"
    by (auto simp add: tuple_item_def split: if_splits)
  moreover from c have "i < length cs" "chart_type = cs ! i"
    by (auto simp add: tuple_item_def split: if_splits)
  ultimately show ?thesis
    using g r rest by auto
qed

lemma panel_step:
  assumes "figures_for P w ticker ms cs s e (i # is) = (Inr figs, w')"
  shows "\<exists>series metrics fig rest w1.
           i < length ms \<and> i < length cs
         \<and> fst (get_stock_data P w ticker s e) = Inr (series, metrics)
         \<and> render_figure series ticker (ms ! i) (cs ! i) = Inr fig
         \<and> w1 = snd (get_stock_data P w ticker s e) @ [Render ticker (ms ! i) (cs ! i)]
         \<and> figures_for P w1 ticker ms cs s e is = (Inr rest, w')
         \<and> figs = fig # rest"
proof -
  from figures_for_Cons_success [OF assms] obtain fig rest w1 where
    a: "i < length ms" "i < length cs"
      "generate_metric_graph P w ticker (ms ! i) (cs ! i) s e = (Inr fig, w1)"
      "figures_for P w1 ticker ms cs s e is = (Inr rest, w')" "figs = fig # rest"
    by blast
  from generate_metric_graph_success [OF a(3)] a show ?thesis
    by blast
qed

section \<open>Fetches per recomputation\<close>

text \<open>
  C2, as the code has it. A recomputation for a non-empty symbol that returns has entered
  \<^verbatim>\<open>get_stock_data\<close> exactly five times, each time with the same symbol and dates: once
  inside each of the four \<^verbatim>\<open>generate_metric_graph\<close> calls and once more for the table.
  Nothing fetched is shared: the figure of panel i is built from the series of the
  i-th fetch, made in the state the calls before it left, with that panel's metric
  (\<^verbatim>\<open>args[i]\<close>) and chart type (\<^verbatim>\<open>args[4 + i]\<close>); the table records come from the metrics
  frame of the fifth fetch. A figure is built once per panel, in panel order, and the
  value returned is the list of the four figures followed by the records. This holds
  whichever selections are made, so also after a change to one panel's metric.
\<close>

theorem populated_fetches_five_times:
  assumes "ticker \<noteq> []"
    and "fst (update_graphs P w (Some ticker) start_date end_date args) = Inr r"
  shows "fetches (snd (update_graphs P w (Some ticker) start_date end_date args))
           = fetches w @ replicate 5 (Fetch ticker start_date end_date)
       \<and> renders (snd (update_graphs P w (Some ticker) start_date end_date args))
           = renders w @
             [Render ticker (args ! 0) (args ! 4), Render ticker (args ! 1) (args ! 5),
              Render ticker (args ! 2) (args ! 6), Render ticker (args ! 3) (args ! 7)]
       \<and> (\<exists>w1 w2 w3 w4 s0 s1 s2 s3 s4 m0 m1 m2 m3 m4 f0 f1 f2 f3.
             fst (get_stock_data P w ticker start_date end_date) = Inr (s0, m0)
           \<and> render_figure s0 ticker (args ! 0) (args ! 4) = Inr f0
           \<and> w1 = snd (get_stock_data P w ticker start_date end_date)
                    @ [Render ticker (args ! 0) (args ! 4)]
           \<and> fst (get_stock_data P w1 ticker start_date end_date) = Inr (s1, m1)
           \<and> render_figure s1 ticker (args ! 1) (args ! 5) = Inr f1
           \<and> w2 = snd (get_stock_data P w1 ticker start_date end_date)
                    @ [Render ticker (args ! 1) (args ! 5)]
           \<and> fst (get_stock_data P w2 ticker start_date end_date) = Inr (s2, m2)
           \<and> render_figure s2 ticker (args ! 2) (args ! 6) = Inr f2
           \<and> w3 = snd (get_stock_data P w2 ticker start_date end_date)
                    @ [Render ticker (args ! 2) (args ! 6)]
           \<and> fst (get_stock_data P w3 ticker start_date end_date) = Inr (s3, m3)
           \<and> render_figure s3 ticker (args ! 3) (args ! 7) = Inr f3
           \<and> w4 = snd (get_stock_data P w3 ticker start_date end_date)
                    @ [Render ticker (args ! 3) (args ! 7)]
           \<and> fst (get_stock_data P w4 ticker start_date end_date) = Inr (s4, m4)
           \<and> r = ListOf [FigureOut f0, FigureOut f1, FigureOut f2, FigureOut f3,
                          RecordsOut (to_dict_records m4)]
           \<and> snd (update_graphs P w (Some ticker) start_date end_date args)
               = snd (get_stock_data P w4 ticker start_date end_date))"
proof -
  let ?ms = "take 4 args" and ?cs = "drop 4 args"
  let ?g = "\<lambda>w. get_stock_data P w ticker start_date end_date"
  obtain rf wf where ff: "figures_for P w ticker ?ms ?cs start_date end_date [0, 1, 2, 3] = (rf, wf)"
    by (cases "figures_for P w ticker ?ms ?cs start_date end_date [0, 1, 2, 3]")
  obtain rg wg where gg: "?g wf = (rg, wg)"
    by (cases "?g wf")
  from assms ff obtain figs where rf: "rf = Inr figs"
    by (cases rf) (auto simp add: update_graphs_def)
  from assms ff rf gg obtain s4 m4 where rg: "rg = Inr (s4, m4)"
    by (cases rg) (auto simp add: update_graphs_def)
  from assms ff rf gg rg
  have res: "update_graphs P w (Some ticker) start_date end_date args
      = (Inr (ListOf (map FigureOut figs @ [RecordsOut (to_dict_records m4)])), wg)"
    by (simp add: update_graphs_def)
  from panel_step [OF ff [unfolded rf]] obtain s0 m0 f0 rest0 w1 where
    p0: "0 < length ?ms" "0 < length ?cs" "fst (?g w) = Inr (s0, m0)"
      "render_figure s0 ticker (?ms ! 0) (?cs ! 0) = Inr f0"
      "w1 = snd (?g w) @ [Render ticker (?ms ! 0) (?cs ! 0)]"
      "figures_for P w1 ticker ?ms ?cs start_date end_date [1, 2, 3] = (Inr rest0, wf)"
      "figs = f0 # rest0"
    by blast
  from panel_step [OF p0(6)] obtain s1 m1 f1 rest1 w2 where
    p1: "1 < length ?ms" "1 < length ?cs" "fst (?g w1) = Inr (s1, m1)"
      "render_figure s1 ticker (?ms ! 1) (?cs ! 1) = Inr f1"
      "w2 = snd (?g w1) @ [Render ticker (?ms ! 1) (?cs ! 1)]"
      "figures_for P w2 ticker ?ms ?cs start_date end_date [2, 3] = (Inr rest1, wf)"
      "rest0 = f1 # rest1"
    by blast
  from panel_step [OF p1(6)] obtain s2 m2 f2 rest2 w3 where
    p2: "2 < length ?ms" "2 < length ?cs" "fst (?g w2) = Inr (s2, m2)"
      "render_figure s2 ticker (?ms ! 2) (?cs ! 2) = Inr f2"
      "w3 = snd (?g w2) @ [Render ticker (?ms ! 2) (?cs ! 2)]"
      "figures_for P w3 ticker ?ms ?cs start_date end_date [3] = (Inr rest2, wf)"
      "rest1 = f2 # rest2"
    by blast
  from panel_step [OF p2(6)] obtain s3 m3 f3 rest3 w4 where
    p3: "3 < length ?ms" "3 < length ?cs" "fst (?g w3) = Inr (s3, m3)"
      "render_figure s3 ticker (?ms ! 3) (?cs ! 3) = Inr f3"
      "w4 = snd (?g w3) @ [Render ticker (?ms ! 3) (?cs ! 3)]"
      "figures_for P w4 ticker ?ms ?cs start_date end_date [] = (Inr rest3, wf)"
      "rest2 = f3 # rest3"
    by blast
  from p3(6) have last: "rest3 = []" "wf = w4" by simp_all
  from p3(2) have len: "8 \<le> length args" by simp
  then have shift: "?cs ! i = args ! (4 + i)" for i
    by simp
  have sums: "(4::nat) + 0 = 4" "(4::nat) + 1 = 5" "(4::nat) + 2 = 6" "(4::nat) + 3 = 7"
    by simp_all
  have idx_m: "?ms ! 0 = args ! 0" "?ms ! 1 = args ! 1" "?ms ! 2 = args ! 2" "?ms ! 3 = args ! 3"
    by simp_all
  note idx = idx_m shift [of 0, unfolded sums] shift [of 1, unfolded sums]
    shift [of 2, unfolded sums] shift [of 3, unfolded sums]
  from p0(7) p1(7) p2(7) p3(7) last have figs: "figs = [f0, f1, f2, f3]" by simp
  from res assms(2) figs
  have r: "r = ListOf [FigureOut f0, FigureOut f1, FigureOut f2, FigureOut f3,
                       RecordsOut (to_dict_records m4)]"
    by simp
  from gg rg last have g4: "fst (?g w4) = Inr (s4, m4)" "snd (?g w4) = wg" by simp_all
  from res g4 have final: "snd (update_graphs P w (Some ticker) start_date end_date args) = snd (?g w4)"
    by simp
  have f0: "fetches (snd (?g v)) = fetches v @ [Fetch ticker start_date end_date]" for v
    by (rule fetches_get_stock_data)
  have r0: "renders (snd (?g v)) = renders v" for v
    by (rule renders_get_stock_data)
  have rend: "renders [Render a b c] = [Render a b c]" "fetches [Render a b c] = []" for a b c
    by (simp_all add: renders_def fetches_def)
  have five: "[x, x, x, x, x] = replicate 5 x" for x :: event
    by (simp add: numeral_eq_Suc)
  have fet: "fetches (snd (update_graphs P w (Some ticker) start_date end_date args))
      = fetches w @ replicate 5 (Fetch ticker start_date end_date)"
    by (simp add: final p3(5) p2(5) p1(5) p0(5) fetches_append f0 rend five [symmetric])
  have ren: "renders (snd (update_graphs P w (Some ticker) start_date end_date args))
      = renders w @
             [Render ticker (args ! 0) (args ! 4), Render ticker (args ! 1) (args ! 5),
              Render ticker (args ! 2) (args ! 6), Render ticker (args ! 3) (args ! 7)]"
    by (simp only: final p3(5) p2(5) p1(5) p0(5) renders_append r0 rend idx append_assoc
        append_Cons append_Nil)
  from p0(3-5) p1(3-5) p2(3-5) p3(3-5) g4(1) r final
  have chain: "\<exists>w1 w2 w3 w4 s0 s1 s2 s3 s4 m0 m1 m2 m3 m4 f0 f1 f2 f3.
             fst (?g w) = Inr (s0, m0)
           \<and> render_figure s0 ticker (args ! 0) (args ! 4) = Inr f0
           \<and> w1 = snd (?g w) @ [Render ticker (args ! 0) (args ! 4)]
           \<and> fst (?g w1) = Inr (s1, m1)
           \<and> render_figure s1 ticker (args ! 1) (args ! 5) = Inr f1
           \<and> w2 = snd (?g w1) @ [Render ticker (args ! 1) (args ! 5)]
           \<and> fst (?g w2) = Inr (s2, m2)
           \<and> render_figure s2 ticker (args ! 2) (args ! 6) = Inr f2
           \<and> w3 = snd (?g w2) @ [Render ticker (args ! 2) (args ! 6)]
           \<and> fst (?g w3) = Inr (s3, m3)
           \<and> render_figure s3 ticker (args ! 3) (args ! 7) = Inr f3
           \<and> w4 = snd (?g w3) @ [Render ticker (args ! 3) (args ! 7)]
           \<and> fst (?g w4) = Inr (s4, m4)
           \<and> r = ListOf [FigureOut f0, FigureOut f1, FigureOut f2, FigureOut f3,
                          RecordsOut (to_dict_records m4)]
           \<and> snd (update_graphs P w (Some ticker) start_date end_date args) = snd (?g w4)"
    unfolding idx by blast
  from fet ren chain show ?thesis by blast
qed

lemma generate_steady_close_lines:
  "generate_metric_graph provider_steady w ticker ''Close'' ''lines'' s e
     = (Inr (layout_metric
         (add_trace Figure
            (Scatter [PStr ''2024-01-02'', PStr ''2024-01-03''] [PFloat 11, PFloat 12]
               ''lines'' (Some theme_line) None None))
         ticker ''Close''),
        w @ [Fetch ticker s e, Render ticker ''Close'' ''lines''])"
  by (simp add: generate_metric_graph_def get_stock_data_steady_full render_sample_close_lines)

lemma update_graphs_steady_default:
  "snd (update_graphs provider_steady [] (Some ''XYZ'') ''2024-01-01'' ''2024-06-01'' default_args)
     = [Fetch ''XYZ'' ''2024-01-01'' ''2024-06-01'', Render ''XYZ'' ''Close'' ''lines'',
        Fetch ''XYZ'' ''2024-01-01'' ''2024-06-01'', Render ''XYZ'' ''Close'' ''lines'',
        Fetch ''XYZ'' ''2024-01-01'' ''2024-06-01'', Render ''XYZ'' ''Close'' ''lines'',
        Fetch ''XYZ'' ''2024-01-01'' ''2024-06-01'', Render ''XYZ'' ''Close'' ''lines'',
        Fetch ''XYZ'' ''2024-01-01'' ''2024-06-01'']"
  by (simp add: update_graphs_def default_args_def tuple_item_def generate_steady_close_lines
      get_stock_data_steady_full Let_def)

text \<open>The alternating provider: a fetch succeeds when an even number went before it.\<close>

lemma get_stock_data_alternating_even:
  "even (length (fetches w)) \<Longrightarrow>
     get_stock_data provider_alternating w ticker s e
       = (Inr (sample_series, DataFrame_items sample_convert (metrics_items sample_info)),
          w @ [Fetch ticker s e])"
  by (simp add: get_stock_data_def provider_alternating_def fetches_def)

lemma get_stock_data_alternating_odd:
  "odd (length (fetches w)) \<Longrightarrow>
     get_stock_data provider_alternating w ticker s e
       = (Inr (DataFrame_empty, DataFrame_empty),
          w @ [Fetch ticker s e, Print (error_line ticker ''rate limited'')])"
  by (simp add: get_stock_data_def provider_alternating_def fetches_def)

lemma generate_alternating_even:
  "even (length (fetches w)) \<Longrightarrow>
     generate_metric_graph provider_alternating w ticker ''Close'' ''lines'' s e
       = (Inr (layout_metric
           (add_trace Figure
              (Scatter [PStr ''2024-01-02'', PStr ''2024-01-03''] [PFloat 11, PFloat 12]
                 ''lines'' (Some theme_line) None None))
           ticker ''Close''),
          w @ [Fetch ticker s e, Render ticker ''Close'' ''lines''])"
  by (simp add: generate_metric_graph_def get_stock_data_alternating_even render_sample_close_lines)

lemma generate_alternating_odd:
  "odd (length (fetches w)) \<Longrightarrow>
     generate_metric_graph provider_alternating w ticker metric chart_type s e
       = (Inr (placeholder ticker metric),
          w @ [Fetch ticker s e, Print (error_line ticker ''rate limited''),
               Render ticker metric chart_type])"
  by (simp add: generate_metric_graph_def get_stock_data_alternating_odd render_figure_empty)

lemma update_graphs_alternating_default:
  "fst (update_graphs provider_alternating [] (Some ''XYZ'') ''2024-01-01'' ''2024-06-01''
      default_args)
     = Inr (ListOf
         [FigureOut (layout_metric
            (add_trace Figure
               (Scatter [PStr ''2024-01-02'', PStr ''2024-01-03''] [PFloat 11, PFloat 12]
                  ''lines'' (Some theme_line) None None))
            ''XYZ'' ''Close''),
          FigureOut (placeholder ''XYZ'' ''Close''),
          FigureOut (layout_metric
            (add_trace Figure
               (Scatter [PStr ''2024-01-02'', PStr ''2024-01-03''] [PFloat 11, PFloat 12]
                  ''lines'' (Some theme_line) None None))
            ''XYZ'' ''Close''),
          FigureOut (placeholder ''XYZ'' ''Close''),
          RecordsOut (to_dict_records
            (DataFrame_items sample_convert (metrics_items sample_info)))])"
  by (simp add: update_graphs_def default_args_def tuple_item_def Let_def fetches_def
      generate_alternating_even generate_alternating_odd get_stock_data_alternating_even)

text \<open>
  With the default selections and a provider that answers, one recomputation enters
  \<^verbatim>\<open>get_stock_data\<close> five times, not once.
\<close>

theorem populated_fetches_per_panel_counterexample:
  "length (fetches (snd (update_graphs provider_steady [] (Some ''XYZ'') ''2024-01-01'' ''2024-06-01''
      default_args))) = 5"
  by (simp add: update_graphs_steady_default fetches_def)

text \<open>
  With the alternating provider the panels do not see the same data: the first and
  third fetch bring the series, the second and fourth fail, so panels one and three are
  drawn and panels two and four are placeholders; the fifth fetch brings the table.
\<close>

theorem populated_fetches_five_times_witness:
  "''XYZ'' \<noteq> []
   \<and> fst (update_graphs provider_alternating [] (Some ''XYZ'') ''2024-01-01'' ''2024-06-01''
        default_args)
     = Inr (ListOf
         [FigureOut (layout_metric
            (add_trace Figure
               (Scatter [PStr ''2024-01-02'', PStr ''2024-01-03''] [PFloat 11, PFloat 12]
                  ''lines'' (Some theme_line) None None))
            ''XYZ'' ''Close''),
          FigureOut (placeholder ''XYZ'' ''Close''),
          FigureOut (layout_metric
            (add_trace Figure
               (Scatter [PStr ''2024-01-02'', PStr ''2024-01-03''] [PFloat 11, PFloat 12]
                  ''lines'' (Some theme_line) None None))
            ''XYZ'' ''Close''),
          FigureOut (placeholder ''XYZ'' ''Close''),
          RecordsOut (to_dict_records
            (DataFrame_items sample_convert (metrics_items sample_info)))])
   \<and> fetches (snd (update_graphs provider_alternating [] (Some ''XYZ'') ''2024-01-01'' ''2024-06-01''
          default_args))
       = replicate 5 (Fetch ''XYZ'' ''2024-01-01'' ''2024-06-01'')
   \<and> renders (snd (update_graphs provider_alternating [] (Some ''XYZ'') ''2024-01-01'' ''2024-06-01''
          default_args))
       = replicate 4 (Render ''XYZ'' ''Close'' ''lines'')"
proof -
  have ne: "''XYZ'' \<noteq> []" by simp
  from populated_fetches_five_times [OF ne update_graphs_alternating_default]
  have "fetches (snd (update_graphs provider_alternating [] (Some ''XYZ'') ''2024-01-01''
          ''2024-06-01'' default_args))
       = replicate 5 (Fetch ''XYZ'' ''2024-01-01'' ''2024-06-01'')"
    and "renders (snd (update_graphs provider_alternating [] (Some ''XYZ'') ''2024-01-01''
          ''2024-06-01'' default_args))
       = replicate 4 (Render ''XYZ'' ''Close'' ''lines'')"
    by (simp_all add: fetches_def renders_def default_args_def numeral_eq_Suc)
  with ne update_graphs_alternating_default show ?thesis
    by simp
qed

section \<open>What the figure depends on\<close>


text \<open>
  Nor is the series an argument: \<^verbatim>\<open>generate_metric_graph\<close> fetches it. Called twice in a
  row with the same five arguments under the alternating provider, it draws the line
  first and the placeholder next.
\<close>

lemma generate_metric_graph_twice_alternating:
  "fst (generate_metric_graph provider_alternating [] ''XYZ'' ''Close'' ''lines''
          ''2024-01-01'' ''2024-06-01'')
     = Inr (layout_metric
         (add_trace Figure
            (Scatter [PStr ''2024-01-02'', PStr ''2024-01-03''] [PFloat 11, PFloat 12]
               ''lines'' (Some theme_line) None None))
         ''XYZ'' ''Close'')"
  "fst (generate_metric_graph provider_alternating
          (snd (generate_metric_graph provider_alternating [] ''XYZ'' ''Close'' ''lines''
                  ''2024-01-01'' ''2024-06-01''))
          ''XYZ'' ''Close'' ''lines'' ''2024-01-01'' ''2024-06-01'')
     = Inr (placeholder ''XYZ'' ''Close'')"
  by (simp_all add: generate_alternating_even generate_alternating_odd fetches_def)



end
